theory Spec2Isabelle
  imports Main
begin

section \<open>Python objects and the module state of \<open>bempp.api\<close>\<close>

text \<open>
  The Laplace potential factories of \<^verbatim>\<open>bempp/api/operators/potential/laplace.py\<close> and the
  helpers of \<^verbatim>\<open>bempp/api/utils/helpers.py\<close> handle most of their arguments as opaque
  Python objects: they are passed on and never inspected. Such an object is its identity
  (what Python's \<^verbatim>\<open>is\<close> compares); the attributes it holds live in a store.
\<close>

datatype pyref = Obj nat

text \<open>
  The two module-level names the code reads, \<^verbatim>\<open>bempp.api.DEFAULT_PRECISION\<close> and
  \<^verbatim>\<open>bempp.api.GLOBAL_PARAMETERS\<close>, together with the store of object contents.
  \<open>GLOBAL_PARAMETERS\<close> is a reference to the default configuration object.
\<close>

record 'obj api_state =
  DEFAULT_PRECISION :: string
  GLOBAL_PARAMETERS :: pyref
  objects :: "pyref \<rightharpoonup> 'obj"

section \<open>Operator descriptors and the assembler boundary\<close>

text \<open>
  Modelled from the spec: the declaration of \<^verbatim>\<open>OperatorDescriptor\<close>
  (\<^verbatim>\<open>bempp.api.operators\<close>) is not among the sources. Section 3 of the specification
  lists its fields; the factories fill them positionally, and the comment beside each
  argument in \<^verbatim>\<open>laplace.py\<close> names the field in the same order.
\<close>

record operator_descriptor =
  "identifier" :: string
  options :: "pyref list"
  kernel_type :: string
  assembly_type :: string
  precision :: string
  is_complex :: bool
  singular_part :: "pyref option"
  kernel_dimension :: int

definition OperatorDescriptor ::
  "string \<Rightarrow> pyref list \<Rightarrow> string \<Rightarrow> string \<Rightarrow> string \<Rightarrow> bool \<Rightarrow> pyref option \<Rightarrow> int
    \<Rightarrow> operator_descriptor" where
  "OperatorDescriptor ident opts ktype atype prec cplx sing kdim =
     \<lparr>identifier = ident, options = opts, kernel_type = ktype, assembly_type = atype,
      precision = prec, is_complex = cplx, singular_part = sing, kernel_dimension = kdim\<rparr>"

text \<open>
  Modelled from the spec: the classes \<^verbatim>\<open>PotentialAssembler\<close> and
  \<^verbatim>\<open>PotentialOperator\<close> (\<^verbatim>\<open>bempp.api.assembly\<close>) are not among the sources either.
  Section 4.4 treats them as opaque, so a construction is recorded as the constructor
  applied to the arguments it was given, in the order of the call
  \<^verbatim>\<open>PotentialAssembler(space, points, operator_descriptor, device_interface, assembler,
  parameters)\<close>. An optional argument is \<open>None\<close> or a reference.
\<close>

datatype potential_assembler =
  PotentialAssembler
    (pa_space: pyref)
    (pa_points: pyref)
    (pa_operator_descriptor: operator_descriptor)
    (pa_device_interface: "pyref option")
    (pa_assembler: string)
    (pa_parameters: "pyref option")

datatype potential_operator =
  PotentialOperator (assembler_of: potential_assembler)

section \<open>The four factories of \<open>laplace.py\<close>\<close>

text \<open>
  Each factory has the signature
  \<^verbatim>\<open>(space, points, parameters=None, assembler="dense", device_interface=None,
  precision=None)\<close>. It replaces a missing precision by the module default, builds the
  descriptor and hands everything to the assembler. The module state is only read.
\<close>

definition single_layer ::
  "'obj api_state \<Rightarrow> pyref \<Rightarrow> pyref \<Rightarrow> pyref option \<Rightarrow> string \<Rightarrow> pyref option
    \<Rightarrow> string option \<Rightarrow> potential_operator" where
  "single_layer api space points parameters assembler device_interface precision_arg =
     (let precision = (case precision_arg of None \<Rightarrow> DEFAULT_PRECISION api | Some p \<Rightarrow> p);
          operator_descriptor =
            OperatorDescriptor
              ''laplace_single_layer_potential''
              []
              ''laplace_single_layer''
              ''default_scalar''
              precision
              False
              None
              1
      in PotentialOperator
           (PotentialAssembler
              space points operator_descriptor device_interface assembler parameters))"

definition single_layer_gradient ::
  "'obj api_state \<Rightarrow> pyref \<Rightarrow> pyref \<Rightarrow> pyref option \<Rightarrow> string \<Rightarrow> pyref option
    \<Rightarrow> string option \<Rightarrow> potential_operator" where
  "single_layer_gradient api space points parameters assembler device_interface precision_arg =
     (let precision = (case precision_arg of None \<Rightarrow> DEFAULT_PRECISION api | Some p \<Rightarrow> p);
          operator_descriptor =
            OperatorDescriptor
              ''laplace_single_layer_potential_gradient''
              []
              ''laplace_single_layer_gradient''
              ''laplace_single_layer_gradient''
              precision
              False
              None
              3
      in PotentialOperator
           (PotentialAssembler
              space points operator_descriptor device_interface assembler parameters))"

definition double_layer ::
  "'obj api_state \<Rightarrow> pyref \<Rightarrow> pyref \<Rightarrow> pyref option \<Rightarrow> string \<Rightarrow> pyref option
    \<Rightarrow> string option \<Rightarrow> potential_operator" where
  "double_layer api space points parameters assembler device_interface precision_arg =
     (let precision = (case precision_arg of None \<Rightarrow> DEFAULT_PRECISION api | Some p \<Rightarrow> p);
          operator_descriptor =
            OperatorDescriptor
              ''laplace_double_layer_potential''
              []
              ''laplace_double_layer''
              ''default_scalar''
              precision
              False
              None
              1
      in PotentialOperator
           (PotentialAssembler
              space points operator_descriptor device_interface assembler parameters))"

definition double_layer_gradient ::
  "'obj api_state \<Rightarrow> pyref \<Rightarrow> pyref \<Rightarrow> pyref option \<Rightarrow> string \<Rightarrow> pyref option
    \<Rightarrow> string option \<Rightarrow> potential_operator" where
  "double_layer_gradient api space points parameters assembler device_interface precision_arg =
     (let precision = (case precision_arg of None \<Rightarrow> DEFAULT_PRECISION api | Some p \<Rightarrow> p);
          operator_descriptor =
            OperatorDescriptor
              ''laplace_double_layer_potential_gradient''
              []
              ''laplace_double_layer_gradient''
              ''laplace_double_layer_gradient''
              precision
              False
              None
              3
      in PotentialOperator
           (PotentialAssembler
              space points operator_descriptor device_interface assembler parameters))"

text \<open>The descriptor a factory built, read back from the operator it returned.\<close>

definition descriptor_of :: "potential_operator \<Rightarrow> operator_descriptor" where
  "descriptor_of op = pa_operator_descriptor (assembler_of op)"

text \<open>
  The invariant section 3 of the specification states for a descriptor, in its words:
  the kernel dimension is 3 exactly when the assembly type names a gradient path, that
  is, when it is not \<open>"default_scalar"\<close>, and 1 otherwise.
\<close>

definition dimension_invariant :: "operator_descriptor \<Rightarrow> bool" where
  "dimension_invariant d =
     (kernel_dimension d = (if assembly_type d = ''default_scalar'' then 1 else 3))"

section \<open>Parameter resolution (\<open>helpers.py\<close>)\<close>

text \<open>
  \<^verbatim>\<open>assign_parameters\<close> selects between its argument and the module default. It is
  written in state-passing form, the state it leaves behind being part of the result, so
  that the absence of any write is a statement about the function.
\<close>

definition assign_parameters ::
  "'obj api_state \<Rightarrow> pyref option \<Rightarrow> pyref \<times> 'obj api_state" where
  "assign_parameters api parameters =
     (let new_parameters =
            (case parameters of
               None \<Rightarrow> GLOBAL_PARAMETERS api
             | Some p \<Rightarrow> p)
      in (new_parameters, api))"

section \<open>Arrays (\<open>helpers.py\<close>)\<close>

text \<open>
  The two array helpers inspect nothing of an array but its element type and leave the
  rest to numpy. An array is therefore modelled by what numpy exposes about it: the
  identity of the Python object, its \<^verbatim>\<open>dtype\<close>, its shape, the entries of
  \<^verbatim>\<open>arr.flags\<close>, and whether it is a plain \<^verbatim>\<open>ndarray\<close> rather than an instance of a
  subclass. Element values are floating-point numbers and stay outside the model.

  A \<^verbatim>\<open>dtype\<close> of a numeric array is a descriptor object. numpy compares two of them in
  two ways, and the helpers meet both:
  \<^item> \<^verbatim>\<open>d1 == d2\<close>, the test written in \<^verbatim>\<open>promote_to_double_precision\<close>, holds when
    the two describe the same kind of number (\<^verbatim>\<open>dtype.kind\<close>: \<open>f\<close> real, \<open>c\<close> complex,
    \<open>i\<close>, \<open>u\<close> integer, \<open>b\<close> boolean) of the same width in bytes
    (\<^verbatim>\<open>dtype.itemsize\<close>) in the same byte order. It is sensitive to the byte order: on a
    little-endian machine \<^verbatim>\<open>numpy.dtype(">f4") == "float32"\<close> is false.
  \<^item> \<^verbatim>\<open>d1 is d2\<close>, the same descriptor object, is what lets \<^verbatim>\<open>numpy.array\<close> hand its
    input back. The descriptor of a built-in type in native byte order is one object
    per type: \<^verbatim>\<open>numpy.dtype("float64")\<close>, \<^verbatim>\<open>numpy.dtype("f8")\<close> and the dtype of
    \<^verbatim>\<open>numpy.zeros(3)\<close> are the same object. A descriptor in the other byte order is made
    anew by every call of \<^verbatim>\<open>numpy.dtype(">f8")\<close>, and two C types of one width (long and
    long long) have two descriptors that compare equal.
  A descriptor is therefore a record of the identity of the object, the kind, the width
  and whether the byte order is swapped against the machine's (\<^verbatim>\<open>not dtype.isnative\<close>).
  Equality of two records is \<^verbatim>\<open>is\<close>; \<open>dtype_eq\<close> is \<^verbatim>\<open>==\<close>.
\<close>

record np_dtype =
  descr_id :: nat
  kind :: char
  itemsize :: nat
  swapped :: bool

definition dtype_eq :: "np_dtype \<Rightarrow> np_dtype \<Rightarrow> bool" where
  "dtype_eq d1 d2 = (kind d1 = kind d2 \<and> itemsize d1 = itemsize d2 \<and> swapped d1 = swapped d2)"

text \<open>
  The four built-in descriptors the code names, \<^verbatim>\<open>numpy.dtype("float32")\<close> and so on,
  each identified by numpy's type number.
\<close>

definition float32 :: np_dtype where
  "float32 = \<lparr>descr_id = 11, kind = CHR ''f'', itemsize = 4, swapped = False\<rparr>"

definition float64 :: np_dtype where
  "float64 = \<lparr>descr_id = 12, kind = CHR ''f'', itemsize = 8, swapped = False\<rparr>"



record ndarray =
  ident :: nat
  dtype :: np_dtype
  shape :: "nat list"
  c_contiguous :: bool
  f_contiguous :: bool
  aligned :: bool
  writeable :: bool
  owndata :: bool
  base_class :: bool

text \<open>
  Allocating an array creates a new object. The heap is the number of array objects made
  so far, and the next one takes that number as its identity; a call that returns the heap
  it was given has allocated nothing.
\<close>

type_synonym np_heap = nat

datatype error = ValueError string | KeyError string

text \<open>
  numpy is not part of the repository, so the two entry points the helpers call are
  parameters of the model: \<^verbatim>\<open>numpy.require(a, dtype, requirements)\<close> and the method
  \<^verbatim>\<open>ndarray.astype(dtype, copy)\<close>. Their \<^verbatim>\<open>dtype\<close> argument is the descriptor that
  \<^verbatim>\<open>numpy.dtype(dtype)\<close> yields for what the caller wrote (a name, an alias such as
  \<open>"f8"\<close>, a scalar type or a descriptor).
\<close>

type_synonym np_require =
  "np_heap \<Rightarrow> ndarray \<Rightarrow> np_dtype \<Rightarrow> string list \<Rightarrow> (error + ndarray) \<times> np_heap"


text \<open>
  \<^verbatim>\<open>align_array\<close>: the order tag selects the requirement list, anything else than
  \<open>"F"\<close> and \<open>"C"\<close> raises \<^verbatim>\<open>ValueError\<close> before numpy is reached.
\<close>

definition align_array ::
  "np_require \<Rightarrow> np_heap \<Rightarrow> ndarray \<Rightarrow> np_dtype \<Rightarrow> string \<Rightarrow> (error + ndarray) \<times> np_heap" where
  "align_array require heap arr dtype_arg order =
     (if order = ''F'' then
        require heap arr dtype_arg [''A'', ''F'', ''O'', ''E'']
      else if order = ''C'' then
        require heap arr dtype_arg [''A'', ''C'', ''O'', ''E'']
      else
        (Inl (ValueError ''order must be one of 'C' or 'F'.''), heap))"


section \<open>What the helpers rely on from numpy\<close>

text \<open>
  \<open>meets a rs\<close>: the array has every property the requirement codes of \<open>rs\<close> name
  (\<open>A\<close> aligned, \<open>C\<close> and \<open>F\<close> contiguous in row-major and column-major order, \<open>O\<close> owns
  its data, \<open>W\<close> writeable, \<open>E\<close> a base-class array).
\<close>

definition meets :: "ndarray \<Rightarrow> string list \<Rightarrow> bool" where
  "meets a rs =
     ((''A'' \<in> set rs \<longrightarrow> aligned a) \<and>
      (''C'' \<in> set rs \<longrightarrow> c_contiguous a) \<and>
      (''F'' \<in> set rs \<longrightarrow> f_contiguous a) \<and>
      (''O'' \<in> set rs \<longrightarrow> owndata a) \<and>
      (''W'' \<in> set rs \<longrightarrow> writeable a) \<and>
      (''E'' \<in> set rs \<longrightarrow> base_class a))"

text \<open>
  The documented behaviour of \<^verbatim>\<open>numpy.require\<close>, for a list of the one-letter codes that
  does not ask for both orders:
  \<^item> it returns an array of the same shape whose type equals the requested one
    (\<^verbatim>\<open>r.dtype == dtype\<close>) and that has the listed properties;
  \<^item> it makes a copy only if needed: an input whose dtype is the requested descriptor
    and that has the listed properties comes back itself, with nothing allocated;
  \<^item> the result carries the requested descriptor itself, unless the input came with
    another descriptor that compares equal to it.
  Only the second and third item speak of the identity of descriptors, and only for
  inputs on which every version of numpy agrees: what \<^verbatim>\<open>numpy.array\<close> does with an input
  whose descriptor equals the requested one without being it (hand the input back, or
  make a view of it) has changed between versions.
\<close>

definition require_contract :: "np_require \<Rightarrow> bool" where
  "require_contract require =
     (\<forall>heap a dt rs.
        set rs \<subseteq> {''A'', ''C'', ''F'', ''O'', ''W'', ''E''} \<and> \<not> (''C'' \<in> set rs \<and> ''F'' \<in> set rs) \<longrightarrow>
        (\<exists>r heap'.
           require heap a dt rs = (Inr r, heap') \<and>
           dtype_eq (dtype r) dt \<and> shape r = shape a \<and> meets r rs \<and>
           (dtype a = dt \<and> meets a rs \<longrightarrow> r = a \<and> heap' = heap) \<and>
           (dtype a = dt \<or> \<not> dtype_eq (dtype a) dt \<longrightarrow> dtype r = dt)))"


section \<open>A reference model of the numpy calls\<close>

text \<open>
  The contracts above are met by numpy itself. The definitions of this section follow
  numpy's implementation at the level of the \<open>ndarray\<close> record: \<^verbatim>\<open>numpy.array\<close> with
  \<^verbatim>\<open>copy=None\<close>, \<^verbatim>\<open>ndarray.copy\<close>, \<^verbatim>\<open>numpy.require\<close> and \<^verbatim>\<open>ndarray.astype\<close>. They
  provide the instance at which the theorems about the helpers are used, and the run
  that shows what \<^verbatim>\<open>align_array\<close> does not guarantee.

  A newly allocated array is aligned, writeable and owns its data. Allocated in row-major
  order it is also column-major contiguous exactly when at most one axis has a length
  other than 1 or some axis has length 0, and the other way round.
\<close>

definition one_axis :: "nat list \<Rightarrow> bool" where
  "one_axis sh = (0 \<in> set sh \<or> length (filter (\<lambda>n. n \<noteq> 1) sh) \<le> 1)"

definition isfortran :: "ndarray \<Rightarrow> bool" where
  "isfortran a = (f_contiguous a \<and> \<not> c_contiguous a)"

text \<open>
  The contiguity flags of an array allocated like \<open>a\<close> in the given order. Order \<open>A\<close> is
  column-major for a Fortran array and row-major otherwise. Order \<open>K\<close> keeps the layout of
  \<open>a\<close>: for an input that is contiguous in neither order numpy derives it from the
  strides, which the record does not hold, so these flags come from the function \<open>keep\<close>.
\<close>

definition layout_of :: "(ndarray \<Rightarrow> bool \<times> bool) \<Rightarrow> string \<Rightarrow> ndarray \<Rightarrow> bool \<times> bool" where
  "layout_of keep order a =
     (if order = ''C'' then (True, one_axis (shape a))
      else if order = ''F'' then (one_axis (shape a), True)
      else if order = ''A'' then
        (if isfortran a then (one_axis (shape a), True) else (True, one_axis (shape a)))
      else if c_contiguous a \<or> length (shape a) \<le> 1 then (True, one_axis (shape a))
      else if f_contiguous a then (one_axis (shape a), True)
      else keep a)"

definition allocate ::
  "np_heap \<Rightarrow> ndarray \<Rightarrow> np_dtype \<Rightarrow> bool \<times> bool \<Rightarrow> bool \<Rightarrow> ndarray \<times> np_heap" where
  "allocate heap a dt layout base =
     (\<lparr>ident = heap, dtype = dt, shape = shape a,
       c_contiguous = fst layout, f_contiguous = snd layout,
       aligned = True, writeable = True, owndata = True, base_class = base\<rparr>,
      Suc heap)"

text \<open>
  Two kinds of view of \<open>a\<close>, each a new object on the same memory: one of the base
  class, and one that carries another descriptor of the same type.
\<close>

definition view :: "np_heap \<Rightarrow> ndarray \<Rightarrow> ndarray \<times> np_heap" where
  "view heap a = (a\<lparr>ident := heap, owndata := False, base_class := True\<rparr>, Suc heap)"

definition view_as :: "np_heap \<Rightarrow> ndarray \<Rightarrow> np_dtype \<Rightarrow> ndarray \<times> np_heap" where
  "view_as heap a dt = (a\<lparr>ident := heap, dtype := dt, owndata := False\<rparr>, Suc heap)"

definition striding_ok :: "ndarray \<Rightarrow> string \<Rightarrow> bool" where
  "striding_ok a order =
     (order = ''A'' \<or> order = ''K'' \<or>
      (order = ''C'' \<and> c_contiguous a) \<or> (order = ''F'' \<and> f_contiguous a))"

text \<open>
  \<^verbatim>\<open>numpy.array(a, dtype=dt, order=order, copy=None, subok=subok)\<close> on an array, as
  numpy 2 implements it. With an acceptable class and a type that equals \<open>dt\<close>: the input
  itself when the layout is acceptable and its descriptor is \<open>dt\<close>, a view that carries
  \<open>dt\<close> when the descriptor is another one, and a copy under the input's own descriptor
  when the layout is not acceptable. Otherwise: a copy under \<open>dt\<close> when the type or the
  layout is not acceptable, and a base-class view when only the class is not.
\<close>

definition numpy_array ::
  "(ndarray \<Rightarrow> bool \<times> bool) \<Rightarrow> np_heap \<Rightarrow> ndarray \<Rightarrow> np_dtype \<Rightarrow> string \<Rightarrow> bool
    \<Rightarrow> ndarray \<times> np_heap" where
  "numpy_array keep heap a dt order subok =
     (if (base_class a \<or> subok) \<and> dtype_eq (dtype a) dt then
        (if striding_ok a order then
           (if dtype a = dt then (a, heap) else view_as heap a dt)
         else allocate heap a (dtype a) (layout_of keep order a) (base_class a))
      else
        (let want_c = (order = ''C'');
             want_f = (order \<noteq> ''C'' \<and> (order = ''F'' \<or> isfortran a));
             copy = ((want_c \<and> \<not> c_contiguous a) \<or> (want_f \<and> \<not> f_contiguous a) \<or>
                     \<not> dtype_eq (dtype a) dt)
         in if copy then
              allocate heap a dt
                (layout_of keep (if want_f then ''F'' else if want_c then ''C'' else ''K'') a)
                (\<not> subok \<or> base_class a)
            else view heap a))"

definition ndarray_copy ::
  "(ndarray \<Rightarrow> bool \<times> bool) \<Rightarrow> np_heap \<Rightarrow> ndarray \<Rightarrow> string \<Rightarrow> ndarray \<times> np_heap" where
  "ndarray_copy keep heap a order =
     allocate heap a (dtype a) (layout_of keep order a) (base_class a)"

text \<open>The requirement names \<^verbatim>\<open>numpy.require\<close> accepts, in any letter case.\<close>

definition POSSIBLE_FLAGS :: "(string \<times> string) list" where
  "POSSIBLE_FLAGS =
     [(''C'', ''C''), (''C_CONTIGUOUS'', ''C''), (''CONTIGUOUS'', ''C''),
      (''F'', ''F''), (''F_CONTIGUOUS'', ''F''), (''FORTRAN'', ''F''),
      (''A'', ''A''), (''ALIGNED'', ''A''),
      (''W'', ''W''), (''WRITEABLE'', ''W''),
      (''O'', ''O''), (''OWNDATA'', ''O''),
      (''E'', ''E''), (''ENSUREARRAY'', ''E'')]"

definition upper_char :: "char \<Rightarrow> char" where
  "upper_char c =
     (let n = (of_char c :: nat) in if 97 \<le> n \<and> n \<le> 122 then char_of (n - 32) else c)"

definition upper :: "string \<Rightarrow> string" where
  "upper s = map upper_char s"

fun requirement_codes :: "string list \<Rightarrow> error + string list" where
  "requirement_codes [] = Inr []"
| "requirement_codes (x # xs) =
     (case map_of POSSIBLE_FLAGS (upper x) of
        None \<Rightarrow> Inl (KeyError (upper x))
      | Some c \<Rightarrow>
          (case requirement_codes xs of
             Inl e \<Rightarrow> Inl e
           | Inr cs \<Rightarrow> Inr (c # cs)))"

text \<open>\<^verbatim>\<open>arr.flags[p]\<close> for the codes that can remain once the order and \<open>E\<close> are taken out.\<close>

definition flags :: "ndarray \<Rightarrow> string \<Rightarrow> bool" where
  "flags arr p =
     (if p = ''A'' then aligned arr
      else if p = ''W'' then writeable arr
      else owndata arr)"

text \<open>
  \<^verbatim>\<open>numpy.require\<close>: the codes are read, \<open>E\<close> switches subclasses off, the order is taken
  from \<open>F\<close> or \<open>C\<close>, the array is converted, and it is copied once more if a remaining
  flag is not set.
\<close>

definition numpy_require :: "(ndarray \<Rightarrow> bool \<times> bool) \<Rightarrow> np_require" where
  \<open>numpy_require keep heap a dt requirements =
     (if requirements = [] then
        (case numpy_array keep heap a dt ''K'' True of (arr, heap1) \<Rightarrow> (Inr arr, heap1))
      else
        (case requirement_codes requirements of
           Inl e \<Rightarrow> (Inl e, heap)
         | Inr codes \<Rightarrow>
             (let subok = (''E'' \<notin> set codes) in
              if ''C'' \<in> set codes \<and> ''F'' \<in> set codes then
                (Inl (ValueError ''Cannot specify both "C" and "F" order''), heap)
              else
                (let order = (if ''F'' \<in> set codes then ''F''
                              else if ''C'' \<in> set codes then ''C'' else ''A'');
                     props = filter (\<lambda>p. p \<noteq> ''E'' \<and> p \<noteq> ''C'' \<and> p \<noteq> ''F'') codes
                 in case numpy_array keep heap a dt order subok of
                      (arr, heap1) \<Rightarrow>
                        if list_all (flags arr) props then (Inr arr, heap1)
                        else (case ndarray_copy keep heap1 arr order of
                                (c, heap2) \<Rightarrow> (Inr c, heap2))))))\<close>


section \<open>Concrete inputs\<close>

text \<open>
  A module state with double precision as the default and the default configuration at
  object 0, holding no attributes the model looks at.
\<close>

definition example_api :: "unit api_state" where
  "example_api =
     \<lparr>DEFAULT_PRECISION = ''double'', GLOBAL_PARAMETERS = Obj 0,
      objects = [Obj 0 \<mapsto> ()]\<rparr>"

text \<open>
  \<^verbatim>\<open>a = numpy.zeros(3); a.flags.writeable = False\<close>: a vector of three doubles that is
  aligned, owns its data, is contiguous in both orders, and is read-only.
\<close>

definition read_only_vector :: ndarray where
  "read_only_vector =
     \<lparr>ident = 0, dtype = float64, shape = [3],
      c_contiguous = True, f_contiguous = True,
      aligned = True, writeable = False, owndata = True, base_class = True\<rparr>"

text \<open>
  \<^verbatim>\<open>numpy.zeros((2, 6), dtype="float32")[:, ::2]\<close>: a strided view of single-precision
  numbers, contiguous in neither order, on memory it does not own.
\<close>

definition float32_slice :: ndarray where
  "float32_slice =
     \<lparr>ident = 1, dtype = float32, shape = [2, 3],
      c_contiguous = False, f_contiguous = False,
      aligned = True, writeable = True, owndata = False, base_class = True\<rparr>"


text \<open>
  The layout function used with these inputs. The layout numpy keeps for a strided input
  comes from its strides; for the slice above the longer stride is on the first axis,
  which gives row-major order.
\<close>

definition keep_row_major :: "ndarray \<Rightarrow> bool \<times> bool" where
  "keep_row_major a = (True, one_axis (shape a))"

section \<open>Properties of the factories\<close>

lemmas factory_defs =
  single_layer_def single_layer_gradient_def double_layer_def double_layer_gradient_def
  OperatorDescriptor_def descriptor_of_def

text \<open>
  Claim C1. Called with the default optional arguments (no parameters, assembler
  \<open>"dense"\<close>, no device interface, no precision), each factory builds the descriptor of
  its row of the table in section 4.3: identifier, kernel type, assembly type and kernel
  dimension as listed, no options, not complex, no singular part.
\<close>

theorem factory_defaults_match_table:
  "descriptor_of (single_layer api space points None ''dense'' None None) =
     \<lparr>identifier = ''laplace_single_layer_potential'', options = [],
      kernel_type = ''laplace_single_layer'', assembly_type = ''default_scalar'',
      precision = DEFAULT_PRECISION api, is_complex = False, singular_part = None,
      kernel_dimension = 1\<rparr>
   \<and> descriptor_of (single_layer_gradient api space points None ''dense'' None None) =
     \<lparr>identifier = ''laplace_single_layer_potential_gradient'', options = [],
      kernel_type = ''laplace_single_layer_gradient'',
      assembly_type = ''laplace_single_layer_gradient'',
      precision = DEFAULT_PRECISION api, is_complex = False, singular_part = None,
      kernel_dimension = 3\<rparr>
   \<and> descriptor_of (double_layer api space points None ''dense'' None None) =
     \<lparr>identifier = ''laplace_double_layer_potential'', options = [],
      kernel_type = ''laplace_double_layer'', assembly_type = ''default_scalar'',
      precision = DEFAULT_PRECISION api, is_complex = False, singular_part = None,
      kernel_dimension = 1\<rparr>
   \<and> descriptor_of (double_layer_gradient api space points None ''dense'' None None) =
     \<lparr>identifier = ''laplace_double_layer_potential_gradient'', options = [],
      kernel_type = ''laplace_double_layer_gradient'',
      assembly_type = ''laplace_double_layer_gradient'',
      precision = DEFAULT_PRECISION api, is_complex = False, singular_part = None,
      kernel_dimension = 3\<rparr>"
  by (simp add: factory_defs)

text \<open>
  Claim C2. Whatever the arguments, the descriptor built by each of the four factories
  satisfies the invariant: its kernel dimension is 3 exactly when its assembly type is
  not \<open>"default_scalar"\<close>, and 1 otherwise.
\<close>

theorem factory_descriptor_dimension_invariant:
  "dimension_invariant
     (descriptor_of (single_layer api space points parameters assembler device precision_arg))
   \<and> dimension_invariant
     (descriptor_of
        (single_layer_gradient api space points parameters assembler device precision_arg))
   \<and> dimension_invariant
     (descriptor_of (double_layer api space points parameters assembler device precision_arg))
   \<and> dimension_invariant
     (descriptor_of
        (double_layer_gradient api space points parameters assembler device precision_arg))"
  by (simp add: factory_defs dimension_invariant_def)

text \<open>
  Claim C3. In every call of a factory the precision of the descriptor is the module's
  \<open>DEFAULT_PRECISION\<close> when no precision is passed, and the precision passed otherwise.
\<close>

theorem factory_precision_resolution:
  "precision (descriptor_of (single_layer api space points parameters assembler device None))
     = DEFAULT_PRECISION api
   \<and> precision (descriptor_of (single_layer api space points parameters assembler device (Some p)))
     = p
   \<and> precision
       (descriptor_of (single_layer_gradient api space points parameters assembler device None))
     = DEFAULT_PRECISION api
   \<and> precision
       (descriptor_of (single_layer_gradient api space points parameters assembler device (Some p)))
     = p
   \<and> precision (descriptor_of (double_layer api space points parameters assembler device None))
     = DEFAULT_PRECISION api
   \<and> precision (descriptor_of (double_layer api space points parameters assembler device (Some p)))
     = p
   \<and> precision
       (descriptor_of (double_layer_gradient api space points parameters assembler device None))
     = DEFAULT_PRECISION api
   \<and> precision
       (descriptor_of (double_layer_gradient api space points parameters assembler device (Some p)))
     = p"
  by (simp add: factory_defs)

text \<open>
  Claim C4, as stated, says that the assembler is handed the resolved configuration and
  never a null value. The factories do not call \<^verbatim>\<open>assign_parameters\<close>: called without
  parameters, \<^verbatim>\<open>single_layer\<close> hands the assembler \<open>None\<close>, not the default
  configuration object that resolution would select.
\<close>

theorem single_layer_hands_over_null_parameters:
  "pa_parameters (assembler_of (single_layer example_api (Obj 1) (Obj 2) None ''dense'' None None))
     = None
   \<and> pa_parameters (assembler_of (single_layer example_api (Obj 1) (Obj 2) None ''dense'' None None))
     \<noteq> Some (fst (assign_parameters example_api None))"
  by (simp add: single_layer_def)

text \<open>
  Claim C4, amended. In every call of a factory the parameters value handed to the
  assembler is the caller's \<open>parameters\<close> argument as it came: the object supplied when
  there is one, and null when there is none.
\<close>

theorem factory_forwards_parameters_unchanged:
  "pa_parameters (assembler_of (single_layer api space points parameters assembler device prec))
     = parameters
   \<and> pa_parameters
       (assembler_of (single_layer_gradient api space points parameters assembler device prec))
     = parameters
   \<and> pa_parameters (assembler_of (double_layer api space points parameters assembler device prec))
     = parameters
   \<and> pa_parameters
       (assembler_of (double_layer_gradient api space points parameters assembler device prec))
     = parameters"
  by (simp add: factory_defs)

text \<open>
  Claim C9. Without an argument \<^verbatim>\<open>assign_parameters\<close> returns the object that
  \<open>GLOBAL_PARAMETERS\<close> refers to, the very same object; with an argument \<open>p\<close> it returns
  \<open>p\<close>. Either way the module state and the store of object contents are left as they
  were: nothing is written and nothing is merged.
\<close>

theorem assign_parameters_selects:
  "assign_parameters api None = (GLOBAL_PARAMETERS api, api)
   \<and> assign_parameters api (Some p) = (p, api)"
  by (simp add: assign_parameters_def)

text \<open>
  Claim C10. The operator a factory returns, that is, the descriptor and every argument
  handed to the assembler, does not depend on \<open>GLOBAL_PARAMETERS\<close>: replacing the
  default configuration (the reference, and the contents of the store) changes nothing.
  With a precision supplied it does not depend on the module state at all, so not on
  \<open>DEFAULT_PRECISION\<close> either.
\<close>

theorem factory_independent_of_globals:
  "single_layer (api\<lparr>GLOBAL_PARAMETERS := g, objects := store\<rparr>)
       space points parameters assembler device precision_arg
     = single_layer api space points parameters assembler device precision_arg
   \<and> single_layer_gradient (api\<lparr>GLOBAL_PARAMETERS := g, objects := store\<rparr>)
       space points parameters assembler device precision_arg
     = single_layer_gradient api space points parameters assembler device precision_arg
   \<and> double_layer (api\<lparr>GLOBAL_PARAMETERS := g, objects := store\<rparr>)
       space points parameters assembler device precision_arg
     = double_layer api space points parameters assembler device precision_arg
   \<and> double_layer_gradient (api\<lparr>GLOBAL_PARAMETERS := g, objects := store\<rparr>)
       space points parameters assembler device precision_arg
     = double_layer_gradient api space points parameters assembler device precision_arg
   \<and> single_layer api1 space points parameters assembler device (Some p)
     = single_layer api2 space points parameters assembler device (Some p)
   \<and> single_layer_gradient api1 space points parameters assembler device (Some p)
     = single_layer_gradient api2 space points parameters assembler device (Some p)
   \<and> double_layer api1 space points parameters assembler device (Some p)
     = double_layer api2 space points parameters assembler device (Some p)
   \<and> double_layer_gradient api1 space points parameters assembler device (Some p)
     = double_layer_gradient api2 space points parameters assembler device (Some p)"
  by (simp add: factory_defs split: option.split)

section \<open>The reference model meets the contracts\<close>

lemma requirement_codes_id:
  "set rs \<subseteq> {''A'', ''C'', ''F'', ''O'', ''W'', ''E''} \<Longrightarrow> requirement_codes rs = Inr rs"
  by (induction rs) (auto simp: POSSIBLE_FLAGS_def upper_def upper_char_def)

lemma dtype_eq_refl: "dtype_eq d d"
  by (simp add: dtype_eq_def)

lemma numpy_array_same:
  "dtype a = dt \<Longrightarrow> base_class a \<or> subok \<Longrightarrow> striding_ok a order \<Longrightarrow>
     numpy_array keep heap a dt order subok = (a, heap)"
  by (simp add: numpy_array_def dtype_eq_refl)

lemma numpy_array_props:
  assumes "numpy_array keep heap a dt order subok = (r, heap')"
  shows "dtype_eq (dtype r) dt" and "shape r = shape a"
    and "order = ''C'' \<Longrightarrow> c_contiguous r"
    and "order = ''F'' \<Longrightarrow> f_contiguous r"
    and "\<not> subok \<Longrightarrow> base_class r"
    and "dtype a = dt \<or> \<not> dtype_eq (dtype a) dt \<Longrightarrow> dtype r = dt"
  using assms
  by (auto simp: numpy_array_def Let_def allocate_def view_def view_as_def striding_ok_def
      layout_of_def dtype_eq_refl split: if_splits)

lemma ndarray_copy_props:
  assumes "ndarray_copy keep heap a order = (r, heap')"
  shows "dtype r = dtype a" and "shape r = shape a" and "aligned r" and "writeable r"
    and "owndata r" and "base_class r = base_class a"
    and "order = ''C'' \<Longrightarrow> c_contiguous r"
    and "order = ''F'' \<Longrightarrow> f_contiguous r"
  using assms
  by (auto simp: ndarray_copy_def allocate_def layout_of_def)

text \<open>The flags loop of \<^verbatim>\<open>numpy.require\<close> looks at \<open>A\<close>, \<open>O\<close> and \<open>W\<close>.\<close>

lemma flags_props:
  assumes "set rs \<subseteq> {''A'', ''C'', ''F'', ''O'', ''W'', ''E''}"
  shows "list_all (flags r) (filter (\<lambda>p. p \<noteq> ''E'' \<and> p \<noteq> ''C'' \<and> p \<noteq> ''F'') rs) =
           ((''A'' \<in> set rs \<longrightarrow> aligned r) \<and> (''O'' \<in> set rs \<longrightarrow> owndata r) \<and>
            (''W'' \<in> set rs \<longrightarrow> writeable r))"
  using assms by (induction rs) (auto simp: flags_def)

text \<open>\<^verbatim>\<open>numpy.require\<close> on a non-empty list of codes, once the conversion is known.\<close>

lemma numpy_require_nonempty:
  assumes sub: "set rs \<subseteq> {''A'', ''C'', ''F'', ''O'', ''W'', ''E''}"
    and nb: "\<not> (''C'' \<in> set rs \<and> ''F'' \<in> set rs)"
    and ne: "rs \<noteq> []"
    and arr: "numpy_array keep heap a dt
                (if ''F'' \<in> set rs then ''F'' else if ''C'' \<in> set rs then ''C'' else ''A'')
                (''E'' \<notin> set rs) = (arr, heap1)"
  shows "numpy_require keep heap a dt rs =
           (if list_all (flags arr) (filter (\<lambda>p. p \<noteq> ''E'' \<and> p \<noteq> ''C'' \<and> p \<noteq> ''F'') rs)
            then (Inr arr, heap1)
            else (Inr (fst (ndarray_copy keep heap1 arr
                     (if ''F'' \<in> set rs then ''F'' else if ''C'' \<in> set rs then ''C'' else ''A''))),
                  snd (ndarray_copy keep heap1 arr
                     (if ''F'' \<in> set rs then ''F'' else if ''C'' \<in> set rs then ''C'' else ''A''))))"
  using nb ne arr
  by (simp add: numpy_require_def requirement_codes_id [OF sub] Let_def split: prod.splits)

lemma numpy_require_meets_contract: "require_contract (numpy_require keep)"
  unfolding require_contract_def
proof (intro allI impI, elim conjE)
  fix heap a dt rs
  assume sub: "set rs \<subseteq> {''A'', ''C'', ''F'', ''O'', ''W'', ''E''}"
    and nb: "\<not> (''C'' \<in> set rs \<and> ''F'' \<in> set rs)"
  let ?goal = "\<exists>r heap'. numpy_require keep heap a dt rs = (Inr r, heap') \<and>
        dtype_eq (dtype r) dt \<and> shape r = shape a \<and> meets r rs \<and>
        (dtype a = dt \<and> meets a rs \<longrightarrow> r = a \<and> heap' = heap) \<and>
        (dtype a = dt \<or> \<not> dtype_eq (dtype a) dt \<longrightarrow> dtype r = dt)"
  show ?goal
  proof (cases "rs = []")
    case True
    obtain arr heap1 where arr: "numpy_array keep heap a dt ''K'' True = (arr, heap1)"
      by (cases "numpy_array keep heap a dt ''K'' True") auto
    have res: "numpy_require keep heap a dt rs = (Inr arr, heap1)"
      using True arr by (simp add: numpy_require_def)
    have same: "dtype a = dt \<Longrightarrow> arr = a \<and> heap1 = heap"
      using arr numpy_array_same [of a dt True "''K''" keep heap]
      by (simp add: striding_ok_def)
    show ?thesis
      using res numpy_array_props(1,2,6) [OF arr] same True by (simp add: meets_def)
  next
    case False
    let ?order = "if ''F'' \<in> set rs then ''F'' else if ''C'' \<in> set rs then ''C'' else ''A''"
    let ?props = "filter (\<lambda>p. p \<noteq> ''E'' \<and> p \<noteq> ''C'' \<and> p \<noteq> ''F'') rs"
    obtain arr heap1 where
      arr: "numpy_array keep heap a dt ?order (''E'' \<notin> set rs) = (arr, heap1)"
      by (cases "numpy_array keep heap a dt ?order (''E'' \<notin> set rs)") auto
    note res = numpy_require_nonempty [OF sub nb False arr]
    note ap = numpy_array_props [OF arr]
    have arr_c: "''C'' \<in> set rs \<Longrightarrow> c_contiguous arr"
      using ap(3) nb by auto
    have arr_f: "''F'' \<in> set rs \<Longrightarrow> f_contiguous arr"
      using ap(4) by auto
    have arr_e: "''E'' \<in> set rs \<Longrightarrow> base_class arr"
      using ap(5) by auto
    have same: "arr = a \<and> heap1 = heap \<and> list_all (flags arr) ?props"
      if dt: "dtype a = dt" and m: "meets a rs"
    proof -
      have cls: "base_class a \<or> ''E'' \<notin> set rs"
        using m by (auto simp: meets_def)
      have ord: "striding_ok a ?order"
        using m nb by (auto simp: meets_def striding_ok_def)
      have "numpy_array keep heap a dt ?order (''E'' \<notin> set rs) = (a, heap)"
        by (rule numpy_array_same [OF dt cls ord])
      with arr have "arr = a" "heap1 = heap" by auto
      moreover have "list_all (flags a) ?props"
        using m by (simp add: flags_props [OF sub] meets_def)
      ultimately show ?thesis by simp
    qed
    show ?thesis
    proof (cases "list_all (flags arr) ?props")
      case True
      have "meets arr rs"
        using True arr_c arr_f arr_e by (simp add: flags_props [OF sub] meets_def)
      then show ?thesis
        using res True ap(1,2,6) same by auto
    next
      case nf: False
      obtain c heap2 where c: "ndarray_copy keep heap1 arr ?order = (c, heap2)"
        by (cases "ndarray_copy keep heap1 arr ?order") auto
      note cp = ndarray_copy_props [OF c]
      have "meets c rs"
        using cp(3-6) cp(7,8) arr_e nb by (auto simp: meets_def)
      moreover have "numpy_require keep heap a dt rs = (Inr c, heap2)"
        using res nf c by simp
      moreover have "\<not> (dtype a = dt \<and> meets a rs)"
        using same nf by auto
      ultimately show ?thesis
        using cp(1,2) ap(1,2,6) by auto
    qed
  qed
qed


section \<open>Properties of \<open>align_array\<close>\<close>

text \<open>
  With a valid order tag \<^verbatim>\<open>align_array\<close> is \<^verbatim>\<open>numpy.require\<close> on one of two requirement
  lists, so the contract of \<^verbatim>\<open>numpy.require\<close> carries over to it.
\<close>

lemma align_array_valid_order:
  assumes "order = ''C'' \<or> order = ''F''"
  shows "align_array require heap a dt order = require heap a dt [''A'', order, ''O'', ''E'']"
  using assms by (auto simp: align_array_def)

lemma align_array_contract:
  assumes req: "require_contract require" and ord: "order = ''C'' \<or> order = ''F''"
  shows "\<exists>r heap'.
           align_array require heap a dt order = (Inr r, heap') \<and>
           dtype_eq (dtype r) dt \<and> shape r = shape a \<and> meets r [''A'', order, ''O'', ''E''] \<and>
           (dtype a = dt \<and> meets a [''A'', order, ''O'', ''E''] \<longrightarrow> r = a \<and> heap' = heap) \<and>
           (dtype a = dt \<or> \<not> dtype_eq (dtype a) dt \<longrightarrow> dtype r = dt)"
proof -
  let ?rs = "[''A'', order, ''O'', ''E'']"
  have "set ?rs \<subseteq> {''A'', ''C'', ''F'', ''O'', ''W'', ''E''}"
    and "\<not> (''C'' \<in> set ?rs \<and> ''F'' \<in> set ?rs)"
    using ord by auto
  with req have
    "\<exists>r heap'. require heap a dt ?rs = (Inr r, heap') \<and>
        dtype_eq (dtype r) dt \<and> shape r = shape a \<and> meets r ?rs \<and>
        (dtype a = dt \<and> meets a ?rs \<longrightarrow> r = a \<and> heap' = heap) \<and>
        (dtype a = dt \<or> \<not> dtype_eq (dtype a) dt \<longrightarrow> dtype r = dt)"
    unfolding require_contract_def by blast
  then show ?thesis
    by (simp only: align_array_valid_order [OF ord])
qed

lemma meets_align_requirements:
  assumes "order = ''C'' \<or> order = ''F''"
  shows "meets a [''A'', order, ''O'', ''E''] =
           (aligned a \<and> owndata a \<and> base_class a \<and>
            (if order = ''C'' then c_contiguous a else f_contiguous a))"
  using assms by (auto simp: meets_def)

text \<open>
  Claim C5. For every array and element type, an order tag other than \<open>"C"\<close> and \<open>"F"\<close>
  makes \<^verbatim>\<open>align_array\<close> fail with \<^verbatim>\<open>ValueError\<close>, Python's invalid-argument error,
  before numpy is called. With \<open>"C"\<close> or \<open>"F"\<close> the result is what \<^verbatim>\<open>numpy.require\<close>
  returns for the requirement list of that order, and that is an array, not an error.
\<close>

theorem align_array_order_check:
  "(order \<noteq> ''C'' \<and> order \<noteq> ''F'' \<longrightarrow>
      align_array require heap a dt order =
        (Inl (ValueError ''order must be one of 'C' or 'F'.''), heap))
   \<and> (order = ''C'' \<or> order = ''F'' \<longrightarrow>
        align_array require heap a dt order = require heap a dt [''A'', order, ''O'', ''E''])
   \<and> (require_contract require \<and> (order = ''C'' \<or> order = ''F'') \<longrightarrow>
        (\<exists>r heap'. align_array require heap a dt order = (Inr r, heap')))"
proof (intro conjI impI)
  assume "order \<noteq> ''C'' \<and> order \<noteq> ''F''"
  then show "align_array require heap a dt order =
      (Inl (ValueError ''order must be one of 'C' or 'F'.''), heap)"
    by (simp add: align_array_def)
next
  assume "order = ''C'' \<or> order = ''F''"
  then show "align_array require heap a dt order = require heap a dt [''A'', order, ''O'', ''E'']"
    by (rule align_array_valid_order)
next
  assume "require_contract require \<and> (order = ''C'' \<or> order = ''F'')"
  then have "require_contract require" and "order = ''C'' \<or> order = ''F''"
    by simp_all
  from align_array_contract [OF this, of heap a dt]
  show "\<exists>r heap'. align_array require heap a dt order = (Inr r, heap')"
    by blast
qed

theorem align_array_order_check_witness:
  "require_contract (numpy_require keep_row_major)
   \<and> align_array (numpy_require keep_row_major) 2 float32_slice float64 ''K'' =
       (Inl (ValueError ''order must be one of 'C' or 'F'.''), 2)
   \<and> (\<exists>r heap'.
         align_array (numpy_require keep_row_major) 2 float32_slice float64 ''F'' =
           (Inr r, heap'))"
proof -
  have contract: "require_contract (numpy_require keep_row_major)"
    by (rule numpy_require_meets_contract)
  have invalid:
    "align_array (numpy_require keep_row_major) 2 float32_slice float64 ''K'' =
       (Inl (ValueError ''order must be one of 'C' or 'F'.''), 2)"
    using align_array_order_check [where order = "''K''"
        and require = "numpy_require keep_row_major"
        and heap = 2 and a = float32_slice and dt = float64]
    by simp
  have valid:
    "\<exists>r heap'.
       align_array (numpy_require keep_row_major) 2 float32_slice float64 ''F'' =
         (Inr r, heap')"
    using contract
      align_array_order_check [where order = "''F''"
        and require = "numpy_require keep_row_major"
        and heap = 2 and a = float32_slice and dt = float64]
    by blast
  from contract invalid valid show ?thesis
    by (intro conjI)
qed

text \<open>
  Claim C6, as stated, promises a writeable result. The requirement lists of
  \<^verbatim>\<open>align_array\<close> hold \<open>A\<close>, the order, \<open>O\<close> and \<open>E\<close>, and not \<open>W\<close>: a read-only vector of
  doubles that already has these properties comes back as it is, still read-only.
\<close>

theorem align_array_returns_read_only_input:
  "align_array (numpy_require keep_row_major) 1 read_only_vector float64 ''C'' =
     (Inr read_only_vector, 1)
   \<and> \<not> writeable read_only_vector"
  by (simp add: align_array_def numpy_require_def numpy_array_def striding_ok_def flags_def
      read_only_vector_def POSSIBLE_FLAGS_def upper_def upper_char_def dtype_eq_refl)

text \<open>
  Claim C6, amended. For every array, element type and order tag \<open>"C"\<close> or \<open>"F"\<close>,
  \<^verbatim>\<open>align_array\<close> returns an array that is aligned, owns its data, is a base-class array,
  is contiguous in the requested order and has an element type equal to the requested
  one (\<^verbatim>\<open>r.dtype == dtype\<close>: the same kind and width in the same byte order); it
  carries the requested descriptor itself whenever the input's dtype is that descriptor
  or differs from it in type. Whether it is writeable is not part of what the code asks
  for.
\<close>

theorem align_array_result_meets_requirements:
  assumes "require_contract require" and "order = ''C'' \<or> order = ''F''"
  shows "\<exists>r heap'.
           align_array require heap a dt order = (Inr r, heap') \<and>
           aligned r \<and> owndata r \<and> base_class r \<and>
           (if order = ''C'' then c_contiguous r else f_contiguous r) \<and>
           dtype_eq (dtype r) dt \<and>
           (dtype a = dt \<or> \<not> dtype_eq (dtype a) dt \<longrightarrow> dtype r = dt)"
  using align_array_contract [OF assms, of heap a dt]
  by (auto simp: meets_align_requirements [OF assms(2)])

theorem align_array_result_meets_requirements_witness:
  "require_contract (numpy_require keep_row_major)
   \<and> \<not> dtype_eq (dtype float32_slice) float64
   \<and> (\<exists>r heap'.
         align_array (numpy_require keep_row_major) 2 float32_slice float64 ''F'' =
           (Inr r, heap') \<and>
         aligned r \<and> owndata r \<and> base_class r \<and> f_contiguous r \<and>
         dtype_eq (dtype r) float64 \<and> dtype r = float64)"
proof -
  have contract: "require_contract (numpy_require keep_row_major)"
    by (rule numpy_require_meets_contract)
  have valid: "''F'' = ''C'' \<or> ''F'' = ''F''"
    by simp
  have differs: "\<not> dtype_eq (dtype float32_slice) float64"
    by (simp add: float32_slice_def float32_def float64_def dtype_eq_def)
  from align_array_result_meets_requirements [OF contract valid, of 2 float32_slice float64]
    differs
  have "\<exists>r heap'.
      align_array (numpy_require keep_row_major) 2 float32_slice float64 ''F'' =
        (Inr r, heap') \<and>
      aligned r \<and> owndata r \<and> base_class r \<and> f_contiguous r \<and>
      dtype_eq (dtype r) float64 \<and> dtype r = float64"
    by auto
  with contract differs show ?thesis
    by (intro conjI)
qed



section \<open>Properties of \<open>promote_to_double_precision\<close>\<close>






end
